theory Spec2Isabelle
  imports Complex_Main
begin

section \<open>Session 2: the customer-table cleaning notebook\<close>

text \<open>
  The notebook \<^verbatim>\<open>session_2/data_preprocessing.ipynb\<close> mutates one module-level
  dataframe \<^verbatim>\<open>df\<close> cell by cell. Here the dataframe is an explicit value that every cell
  takes and returns. A numeric column is a list of nullable cells: \<open>None\<close> is the
  dataframe library's missing value (NaN), \<open>Some v\<close> a present number. A number is the
  exact rational value of the 64-bit float; comparisons and sorting are the floats' own.
  Sums, means and the decimal rounding are computed exactly, without the rounding error
  of the floats; the interpolation between two values, on which the bin edges of the
  purchase categories depend, is a parameter, so that nothing is assumed of its rounding.
\<close>

subsection \<open>Column primitives\<close>

type_synonym num_column = "rat option list"

text \<open>\<^verbatim>\<open>Series.dropna()\<close>: the present values, in row order.\<close>

definition dropna :: "'a option list \<Rightarrow> 'a list" where
  "dropna col = List.map_filter (\<lambda>c. c) col"

text \<open>
  \<^verbatim>\<open>Series.fillna(value)\<close>. The fill value is itself a nullable number, because the
  notebook passes the result of \<^verbatim>\<open>.median()\<close> or \<^verbatim>\<open>.mean()\<close>, and these are NaN on a
  column without present values; filling with NaN changes nothing and raises nothing.
\<close>

definition fillna :: "'a option list \<Rightarrow> 'a option \<Rightarrow> 'a option list" where
  "fillna col val = map (\<lambda>c. case c of None \<Rightarrow> val | Some v \<Rightarrow> Some v) col"

text \<open>
  \<^verbatim>\<open>Series.median()\<close> skips missing cells; the middle of the sorted present values,
  the average of the two middle ones for an even count, NaN when there is none.
\<close>

definition median :: "num_column \<Rightarrow> rat option" where
  "median col =
     (let vs = sort (dropna col); n = length vs
      in if n = 0 then None
         else if odd n then Some (vs ! (n div 2))
         else Some ((vs ! (n div 2 - 1) + vs ! (n div 2)) / 2))"

text \<open>\<^verbatim>\<open>Series.mean()\<close> skips missing cells; NaN when there is no present value.\<close>

definition mean :: "num_column \<Rightarrow> rat option" where
  "mean col =
     (let vs = dropna col
      in if vs = [] then None else Some (sum_list vs / of_nat (length vs)))"

text \<open>
  \<^verbatim>\<open>Series.apply(lambda x: None if x < 0 else x)\<close>. On a missing cell the comparison
  \<^verbatim>\<open>nan < 0\<close> is false, so the cell is returned as it is.
\<close>

definition none_if_negative :: "rat option \<Rightarrow> rat option" where
  "none_if_negative x = (case x of None \<Rightarrow> None | Some v \<Rightarrow> if v < 0 then None else Some v)"

definition series_apply :: "('a \<Rightarrow> 'b) \<Rightarrow> 'a list \<Rightarrow> 'b list" where
  "series_apply f col = map f col"

text \<open>\<^verbatim>\<open>Series.clip(lower, upper)\<close>: a missing cell stays missing.\<close>

definition clip :: "rat \<Rightarrow> rat \<Rightarrow> num_column \<Rightarrow> num_column" where
  "clip lower upper col = map (map_option (\<lambda>v. min upper (max lower v))) col"

subsection \<open>Cells 2 and 3 on one column\<close>

text \<open>
  \<^verbatim>\<open>df["age"] = df["age"].fillna(df["age"].median())\<close> and the same with
  \<^verbatim>\<open>.mean()\<close> for the purchase amount.
\<close>

definition fill_with_median :: "num_column \<Rightarrow> num_column" where
  "fill_with_median col = fillna col (median col)"

definition fill_with_mean :: "num_column \<Rightarrow> num_column" where
  "fill_with_mean col = fillna col (mean col)"

text \<open>
  \<^verbatim>\<open>df["age"] = df["age"].apply(lambda x: None if x < 0 else x)\<close>
  \<^verbatim>\<open>df["age"] = df["age"].fillna(df["age"].median())\<close>
  The second statement reads \<^verbatim>\<open>df["age"]\<close> after the first has assigned it.
\<close>

definition fix_invalid_median :: "num_column \<Rightarrow> num_column" where
  "fix_invalid_median col =
     (let col' = series_apply none_if_negative col
      in fillna col' (median col'))"

definition fix_invalid_mean :: "num_column \<Rightarrow> num_column" where
  "fix_invalid_mean col =
     (let col' = series_apply none_if_negative col
      in fillna col' (mean col'))"

definition repair_age :: "num_column \<Rightarrow> num_column" where
  "repair_age col = fix_invalid_median (fill_with_median col)"

definition repair_purchase_amount :: "num_column \<Rightarrow> num_column" where
  "repair_purchase_amount col = fix_invalid_mean (fill_with_mean col)"

text \<open>
  The repair as the specification words it: the second fill uses the statistic of the
  once-filled column, negatives still in it.
\<close>

definition repair_age_as_specified :: "num_column \<Rightarrow> num_column" where
  "repair_age_as_specified col =
     (let filled = fill_with_median col
      in fillna (series_apply none_if_negative filled) (median filled))"

definition repair_purchase_amount_as_specified :: "num_column \<Rightarrow> num_column" where
  "repair_purchase_amount_as_specified col =
     (let filled = fill_with_mean col
      in fillna (series_apply none_if_negative filled) (mean filled))"

text \<open>The non-negative present values of a column.\<close>

definition valid_values :: "num_column \<Rightarrow> rat list" where
  "valid_values col = filter (\<lambda>v. 0 \<le> v) (dropna col)"


subsection \<open>Rounding and integer conversion\<close>

text \<open>
  \<^verbatim>\<open>numpy.rint\<close>: the nearest integer, a tie going to the even neighbour.
\<close>

definition rint :: "rat \<Rightarrow> int" where
  "rint x =
     (let f = \<lfloor>x\<rfloor>; d = x - of_int f
      in if d < 1 / 2 then f
         else if 1 / 2 < d then f + 1
         else if even f then f else f + 1)"

text \<open>
  \<^verbatim>\<open>Series.round(decimals)\<close>: scale by \<open>10 ^ decimals\<close>, round to the nearest integer,
  scale back; a missing cell stays missing. The product and the quotient are exact here,
  where the library rounds each to a float.
\<close>

definition round_series :: "nat \<Rightarrow> num_column \<Rightarrow> num_column" where
  "round_series decimals col =
     map (map_option (\<lambda>v. of_int (rint (v * 10 ^ decimals)) / 10 ^ decimals)) col"

datatype error = ValueError | ZeroDivisionError | RuntimeError | IndexError

text \<open>
  The conversion of a float to a 64-bit integer: truncation towards zero, and the least
  64-bit integer for a value outside the range.
\<close>

definition int64_of :: "rat \<Rightarrow> int" where
  "int64_of v =
     (let z = (if 0 \<le> v then \<lfloor>v\<rfloor> else \<lceil>v\<rceil>)
      in if - (2 ^ 63) \<le> z \<and> z < 2 ^ 63 then z else - (2 ^ 63))"

text \<open>
  \<^verbatim>\<open>Series.astype(int)\<close>: raises on a column with a missing cell (ValueError, the
  library's error on a float column), and otherwise converts every value.
\<close>

definition astype_int :: "num_column \<Rightarrow> error + num_column" where
  "astype_int col =
     (if None \<in> set col then Inl ValueError
      else Inr (map (map_option (\<lambda>v. of_int (int64_of v))) col))"

subsection \<open>Binning\<close>

text \<open>
  \<^verbatim>\<open>bins.searchsorted(x, side="left")\<close> on increasing bin edges: the number of edges
  strictly below the value.
\<close>

definition searchsorted_left :: "rat list \<Rightarrow> rat \<Rightarrow> nat" where
  "searchsorted_left bins v = length (filter (\<lambda>b. b < v) bins)"

text \<open>
  The label of one cell in the library's \<^verbatim>\<open>_bins_to_cuts\<close> with right-closed
  intervals: a value in \<open>(bins[i-1], bins[i]]\<close> gets \<open>labels[i-1]\<close>; with
  \<^verbatim>\<open>include_lowest\<close> the first edge itself belongs to the first interval; a missing
  cell and a value outside all intervals get no label.
\<close>

definition cut_cell :: "rat list \<Rightarrow> string list \<Rightarrow> bool \<Rightarrow> rat option \<Rightarrow> string option" where
  "cut_cell bins labels include_lowest c =
     (case c of
        None \<Rightarrow> None
      | Some v \<Rightarrow>
          (let ids = (if include_lowest \<and> v = hd bins then 1 else searchsorted_left bins v)
           in if ids = 0 \<or> ids = length bins then None else Some (labels ! (ids - 1))))"

text \<open>
  \<^verbatim>\<open>_bins_to_cuts\<close> with \<^verbatim>\<open>duplicates="raise"\<close> and explicit ordered labels: repeated
  edges, a label count other than one fewer than the edge count, and repeated labels
  raise ValueError.
\<close>

definition bins_to_cuts ::
  "num_column \<Rightarrow> rat list \<Rightarrow> string list \<Rightarrow> bool \<Rightarrow> error + string option list" where
  "bins_to_cuts col bins labels include_lowest =
     (if length (remdups bins) < length bins \<and> length bins \<noteq> 2 then Inl ValueError
      else if length labels + 1 \<noteq> length bins then Inl ValueError
      else if \<not> distinct labels then Inl ValueError
      else Inr (map (cut_cell bins labels include_lowest) col))"

text \<open>
  \<^verbatim>\<open>pd.cut(x, bins=[...], labels=[...])\<close>: edges that decrease somewhere raise
  ValueError; the lowest edge is not included.
\<close>

definition pd_cut :: "num_column \<Rightarrow> rat list \<Rightarrow> string list \<Rightarrow> error + string option list" where
  "pd_cut col bins labels =
     (if \<not> sorted bins then Inl ValueError else bins_to_cuts col bins labels False)"

text \<open>
  \<^verbatim>\<open>Series.quantile(q)\<close> on the sorted present values \<open>vs\<close>, by linear interpolation
  between the two values around position \<open>(n - 1) * q\<close>. The position, its floor and
  its fractional part are exact in the floats for the quantiles 0, 1/4, 1/2, 3/4 and 1.
  The interpolation itself, \<open>lerp a b t\<close> for \<open>a + (b - a) * t\<close> in floating point, is
  rounded by the library; it is the parameter \<open>lerp\<close>.
\<close>

definition quantile :: "(rat \<Rightarrow> rat \<Rightarrow> rat \<Rightarrow> rat) \<Rightarrow> rat list \<Rightarrow> rat \<Rightarrow> rat" where
  "quantile lerp vs q =
     (let h = of_nat (length vs - 1) * q;
          lo = nat \<lfloor>h\<rfloor>;
          hi = min (lo + 1) (length vs - 1)
      in lerp (vs ! lo) (vs ! hi) (h - of_nat lo))"

text \<open>The interpolation without rounding.\<close>

definition exact_lerp :: "rat \<Rightarrow> rat \<Rightarrow> rat \<Rightarrow> rat" where
  "exact_lerp a b t = a + (b - a) * t"

text \<open>
  The interpolation as the floats between \<open>2 ^ 53\<close> and \<open>2 ^ 54\<close> give it: these floats
  are the even integers, and a sum is rounded to the nearest of them, a tie to the one
  with the even mantissa.
\<close>

definition lerp_even_grid :: "rat \<Rightarrow> rat \<Rightarrow> rat \<Rightarrow> rat" where
  "lerp_even_grid a b t = 2 * of_int (rint ((a + (b - a) * t) / 2))"

text \<open>
  \<^verbatim>\<open>pd.qcut(x, q, labels=[...])\<close> for an integer \<open>q\<close>: the edges are the quantiles
  \<open>0, 1/q, ..., 1\<close> of the present values of the column itself, and the lowest edge is
  included. Without a present value every edge is NaN, which the duplicate check
  rejects.
\<close>

definition qcut_bins :: "(rat \<Rightarrow> rat \<Rightarrow> rat \<Rightarrow> rat) \<Rightarrow> num_column \<Rightarrow> nat \<Rightarrow> rat list" where
  "qcut_bins lerp col q =
     map (\<lambda>k. quantile lerp (sort (dropna col)) (of_nat k / of_nat q)) [0..<Suc q]"

definition pd_qcut ::
  "(rat \<Rightarrow> rat \<Rightarrow> rat \<Rightarrow> rat) \<Rightarrow> num_column \<Rightarrow> nat \<Rightarrow> string list \<Rightarrow> error + string option list" where
  "pd_qcut lerp col q labels =
     (if dropna col = [] then Inl ValueError
      else bins_to_cuts col (qcut_bins lerp col q) labels True)"

text \<open>
  The five quartile edges stand where the interpolation without rounding puts them
  among the sorted values \<open>vs\<close>: they increase strictly, the lowest is not above the
  least value, and edge \<open>k\<close> lies from the value at the floor of its position
  \<open>(n - 1) * k / 4\<close> up to, but not reaching, the next value.
\<close>

definition quartile_edges_in_place :: "rat list \<Rightarrow> rat list \<Rightarrow> bool" where
  "quartile_edges_in_place vs bins \<longleftrightarrow>
     length bins = 5 \<and> sorted_wrt (<) bins \<and> bins ! 0 \<le> vs ! 0 \<and>
     list_all
       (\<lambda>k. vs ! ((length vs - 1) * k div 4) \<le> bins ! k \<and>
            (Suc ((length vs - 1) * k div 4) < length vs \<longrightarrow>
               bins ! k < vs ! Suc ((length vs - 1) * k div 4)))
       [0..<5]"

definition purchase_labels :: "string list" where
  "purchase_labels = [''Low'', ''Medium'', ''High'', ''Premium'']"

definition age_bins :: "rat list" where
  "age_bins = [17, 25, 35, 50, 65, 90]"

definition age_labels :: "string list" where
  "age_labels = [''18-25'', ''26-35'', ''36-50'', ''51-65'', ''65+'']"

text \<open>The age group of one age, as \<^verbatim>\<open>pd.cut\<close> assigns it with the notebook's edges.\<close>

definition age_group_of :: "rat option \<Rightarrow> string option" where
  "age_group_of a = cut_cell age_bins age_labels False a"

subsection \<open>The dataframe and the cells of the notebook\<close>

record timestamp =
  year :: int
  month :: nat
  day :: nat

record dataframe =
  customer_id :: "int list"
  name :: "string list"
  age :: num_column
  email :: "string option list"
  purchase_amount :: num_column
  purchase_date :: "timestamp list"
  category :: "string option list"
  satisfaction_score :: num_column
  phone_number :: "string list"

record featured_dataframe = dataframe +
  purchase_month :: "nat list"
  purchase_category :: "string option list"
  age_group :: "string option list"

text \<open>Every column of a dataframe has one cell per row of the index.\<close>

definition well_formed :: "dataframe \<Rightarrow> nat \<Rightarrow> bool" where
  "well_formed df n \<longleftrightarrow>
     length (customer_id df) = n \<and> length (name df) = n \<and> length (age df) = n \<and>
     length (email df) = n \<and> length (purchase_amount df) = n \<and>
     length (purchase_date df) = n \<and> length (category df) = n \<and>
     length (satisfaction_score df) = n \<and> length (phone_number df) = n"

text \<open>Section 2 of the notebook, "Handling Missing Values".\<close>

definition handle_missing_values :: "dataframe \<Rightarrow> dataframe" where
  "handle_missing_values df =
     (let df1 = df\<lparr>email := fillna (email df) (Some ''unknown'')\<rparr>;
          df2 = df1\<lparr>category := fillna (category df1) (Some ''Other'')\<rparr>;
          df3 = df2\<lparr>satisfaction_score := fill_with_median (satisfaction_score df2)\<rparr>;
          df4 = df3\<lparr>age := fill_with_median (age df3)\<rparr>
      in df4\<lparr>purchase_amount := fill_with_mean (purchase_amount df4)\<rparr>)"

text \<open>Section 3, "Handling Invalid Values".\<close>

definition handle_invalid_values :: "dataframe \<Rightarrow> dataframe" where
  "handle_invalid_values df =
     (let df1 = df\<lparr>age := fix_invalid_median (age df)\<rparr>
      in df1\<lparr>purchase_amount := fix_invalid_mean (purchase_amount df1)\<rparr>)"

text \<open>Section 4, "Data Validation and Constraints".\<close>

definition validation_and_constraints :: "dataframe \<Rightarrow> error + dataframe" where
  "validation_and_constraints df =
     (let df1 = df\<lparr>age := clip 18 90 (age df)\<rparr>;
          df2 = df1\<lparr>purchase_amount := round_series 2 (purchase_amount df1)\<rparr>
      in case astype_int (round_series 0 (satisfaction_score df2)) of
           Inl e \<Rightarrow> Inl e
         | Inr s \<Rightarrow> Inr (df2\<lparr>satisfaction_score := s\<rparr>))"

text \<open>Section 5, "Feature Engineering".\<close>

definition feature_engineering ::
  "(rat \<Rightarrow> rat \<Rightarrow> rat \<Rightarrow> rat) \<Rightarrow> dataframe \<Rightarrow> error + featured_dataframe" where
  "feature_engineering lerp df =
     (let pm = map month (purchase_date df)
      in case pd_qcut lerp (purchase_amount df) 4 purchase_labels of
           Inl e \<Rightarrow> Inl e
         | Inr pc \<Rightarrow>
             (case pd_cut (age df) age_bins age_labels of
                Inl e \<Rightarrow> Inl e
              | Inr ag \<Rightarrow>
                  Inr (dataframe.extend df
                        (featured_dataframe.fields pm pc ag))))"

text \<open>Sections 2 to 4 in the order of the cells, and the whole cleaning run.\<close>

definition repair_and_constrain :: "dataframe \<Rightarrow> error + dataframe" where
  "repair_and_constrain df =
     validation_and_constraints (handle_invalid_values (handle_missing_values df))"

definition cleaning_pipeline ::
  "(rat \<Rightarrow> rat \<Rightarrow> rat \<Rightarrow> rat) \<Rightarrow> dataframe \<Rightarrow> error + featured_dataframe" where
  "cleaning_pipeline lerp df =
     (case repair_and_constrain df of
        Inl e \<Rightarrow> Inl e
      | Inr df' \<Rightarrow> feature_engineering lerp df')"

text \<open>
  The statistics of the five statistic-based fills, each on the column it is computed
  on, are defined (not NaN).
\<close>

definition fill_statistics_defined :: "dataframe \<Rightarrow> bool" where
  "fill_statistics_defined df \<longleftrightarrow>
     median (satisfaction_score df) \<noteq> None \<and>
     median (age df) \<noteq> None \<and>
     mean (purchase_amount df) \<noteq> None \<and>
     median (series_apply none_if_negative (fill_with_median (age df))) \<noteq> None \<and>
     mean (series_apply none_if_negative (fill_with_mean (purchase_amount df))) \<noteq> None"

subsection \<open>Section 10, "Data Quality Metrics"\<close>

text \<open>\<^verbatim>\<open>len(df)\<close>: the number of rows.\<close>

definition len :: "'a dataframe_scheme \<Rightarrow> nat" where
  "len df = length (customer_id df)"

text \<open>
  \<^verbatim>\<open>isnull().sum()\<close> of one column. Only the nullable columns can add to the total of
  missing values.
\<close>

definition isnull_sum :: "'a option list \<Rightarrow> nat" where
  "isnull_sum col = length (filter (\<lambda>c. c = None) col)"

text \<open>
  \<^verbatim>\<open>duplicated()\<close>: a row is marked when an equal row stands above it.
\<close>

definition duplicated :: "'a list \<Rightarrow> bool list" where
  "duplicated rs = map (\<lambda>i. rs ! i \<in> set (take i rs)) [0..<length rs]"

type_synonym row =
  "int \<times> string \<times> rat option \<times> string option \<times> rat option \<times> timestamp \<times> string option \<times>
   rat option \<times> string \<times> nat \<times> string option \<times> string option"

definition rows :: "featured_dataframe \<Rightarrow> row list" where
  "rows df =
     map (\<lambda>i. (customer_id df ! i, name df ! i, age df ! i, email df ! i,
               purchase_amount df ! i, purchase_date df ! i, category df ! i,
               satisfaction_score df ! i, phone_number df ! i, purchase_month df ! i,
               purchase_category df ! i, age_group df ! i))
         [0..<len df]"

text \<open>\<^verbatim>\<open>Series.min()\<close> and \<^verbatim>\<open>Series.max()\<close> skip missing cells.\<close>

definition series_min :: "num_column \<Rightarrow> rat option" where
  "series_min col = (case dropna col of [] \<Rightarrow> None | v # vs \<Rightarrow> Some (fold min vs v))"

definition series_max :: "num_column \<Rightarrow> rat option" where
  "series_max col = (case dropna col of [] \<Rightarrow> None | v # vs \<Rightarrow> Some (fold max vs v))"

record quality_metrics =
  total_records :: nat
  missing_values :: nat
  duplicate_records :: nat
  age_range :: "rat option \<times> rat option"
  purchase_amount_range :: "rat option \<times> rat option"
  unique_categories :: nat
  average_satisfaction :: "rat option"

definition compute_quality_metrics :: "featured_dataframe \<Rightarrow> quality_metrics" where
  "compute_quality_metrics df =
     \<lparr>total_records = len df,
      missing_values =
        isnull_sum (age df) + isnull_sum (email df) + isnull_sum (purchase_amount df) +
        isnull_sum (category df) + isnull_sum (satisfaction_score df) +
        isnull_sum (purchase_category df) + isnull_sum (age_group df),
      duplicate_records = length (filter (\<lambda>d. d) (duplicated (rows df))),
      age_range = (series_min (age df), series_max (age df)),
      purchase_amount_range = (series_min (purchase_amount df), series_max (purchase_amount df)),
      unique_categories = length (remdups (category df)),
      average_satisfaction = mean (satisfaction_score df)\<rparr>"


subsection \<open>An example table\<close>

text \<open>
  Six rows in the shape of the generated customer data, the second a copy of the first,
  and the table that the cells of the notebook turn it into.
\<close>

definition example_table :: dataframe where
  "example_table =
     \<lparr>customer_id = [1, 1, 3, 4, 5, 6],
      name = [''Customer_1'', ''Customer_1'', ''Customer_3'', ''Customer_4'', ''Customer_5'',
              ''Customer_6''],
      age = [Some 30, Some 30, None, Some (- 1), Some 95, Some 17],
      email = [Some ''customer_1@email.com'', Some ''customer_1@email.com'', None,
               Some ''customer_4@email.com'', Some ''customer_5@email.com'', None],
      purchase_amount = [Some 100, Some 100, Some (80001 / 400), None, Some (- 100), Some 400],
      purchase_date =
        [\<lparr>year = 2023, month = 1, day = 1\<rparr>, \<lparr>year = 2023, month = 1, day = 1\<rparr>,
         \<lparr>year = 2023, month = 1, day = 3\<rparr>, \<lparr>year = 2023, month = 2, day = 4\<rparr>,
         \<lparr>year = 2023, month = 2, day = 5\<rparr>, \<lparr>year = 2023, month = 3, day = 6\<rparr>],
      category = [Some ''Books'', Some ''Books'', None, Some ''Home'', Some ''Books'', Some ''Home''],
      satisfaction_score = [Some 4, Some 4, None, Some 5, Some 1, Some 3],
      phone_number = [''+1-555-0001'', ''+1-555-0001'', ''+1-555-0003'', ''+1-555-0004'',
                      ''+1-555-0005'', ''invalid'']\<rparr>"

definition example_cleaned :: featured_dataframe where
  "example_cleaned =
     \<lparr>customer_id = [1, 1, 3, 4, 5, 6],
      name = [''Customer_1'', ''Customer_1'', ''Customer_3'', ''Customer_4'', ''Customer_5'',
              ''Customer_6''],
      age = [Some 30, Some 30, Some 30, Some 30, Some 90, Some 18],
      email = [Some ''customer_1@email.com'', Some ''customer_1@email.com'', Some ''unknown'',
               Some ''customer_4@email.com'', Some ''customer_5@email.com'', Some ''unknown''],
      purchase_amount = [Some 100, Some 100, Some 200, Some 140, Some 188, Some 400],
      purchase_date =
        [\<lparr>year = 2023, month = 1, day = 1\<rparr>, \<lparr>year = 2023, month = 1, day = 1\<rparr>,
         \<lparr>year = 2023, month = 1, day = 3\<rparr>, \<lparr>year = 2023, month = 2, day = 4\<rparr>,
         \<lparr>year = 2023, month = 2, day = 5\<rparr>, \<lparr>year = 2023, month = 3, day = 6\<rparr>],
      category = [Some ''Books'', Some ''Books'', Some ''Other'', Some ''Home'', Some ''Books'',
                  Some ''Home''],
      satisfaction_score = [Some 4, Some 4, Some 4, Some 5, Some 1, Some 3],
      phone_number = [''+1-555-0001'', ''+1-555-0001'', ''+1-555-0003'', ''+1-555-0004'',
                      ''+1-555-0005'', ''invalid''],
      purchase_month = [1, 1, 1, 2, 2, 3],
      purchase_category = [Some ''Low'', Some ''Low'', Some ''Premium'', Some ''Medium'',
                           Some ''High'', Some ''Premium''],
      age_group = [Some ''26-35'', Some ''26-35'', Some ''26-35'', Some ''26-35'', Some ''65+'',
                   Some ''18-25'']\<rparr>"

section \<open>Session 2: the digit classifier notebook\<close>

text \<open>
  A label is a class index. The scalars of the tensors are of any type with the
  operations the network uses; their arithmetic is left to the type. Scores are
  compared in a linear order, so a score is never NaN.
\<close>

subsection \<open>Tensors\<close>

text \<open>
  A tensor as the library holds it: its shape and its values in row-major order.
\<close>

datatype 'a tensor = Tensor (shape: "nat list") (storage: "'a list")

text \<open>
  \<^verbatim>\<open>torch.stack\<close>, by which a batch of images is collated: the tensors must be of one
  shape, and there must be one at least.
\<close>

definition stack :: "'a tensor list \<Rightarrow> error + 'a tensor" where
  "stack ts =
     (case ts of
        [] \<Rightarrow> Inl RuntimeError
      | t # _ \<Rightarrow>
          if list_all (\<lambda>u. shape u = shape t) ts
          then Inr (Tensor (length ts # shape t) (concat (map storage ts)))
          else Inl RuntimeError)"

text \<open>Consecutive pieces of \<open>n\<close> elements, the last one shorter when \<open>n\<close> does not divide.\<close>

function chunks :: "nat \<Rightarrow> 'a list \<Rightarrow> 'a list list" where
  "chunks n xs = (if xs = [] \<or> n = 0 then [] else take n xs # chunks n (drop n xs))"
  by pat_completeness auto
termination
  by (relation "measure (\<lambda>(n, xs). length xs)") auto

declare chunks.simps [simp del]


subsection \<open>The classifier\<close>






text \<open>The first failure of a run of calls is the failure of the run.\<close>

fun map_result :: "('a \<Rightarrow> error + 'b) \<Rightarrow> 'a list \<Rightarrow> error + 'b list" where
  "map_result f [] = Inr []"
| "map_result f (x # xs) =
     (case f x of
        Inl e \<Rightarrow> Inl e
      | Inr y \<Rightarrow> (case map_result f xs of Inl e \<Rightarrow> Inl e | Inr ys \<Rightarrow> Inr (y # ys)))"

text \<open>
  The output of a call of the model: the rows of class scores, and whether the autograd
  has recorded the computation for a later backward pass. The parameters of the layers
  require gradients, so it records whenever gradient recording is enabled.
\<close>

record 'a model_output =
  scores :: "'a list list"
  requires_grad :: bool








subsection \<open>Data loading\<close>

text \<open>
  The default collation of a batch of samples: the images stacked into one tensor, the
  labels into a vector.
\<close>

definition collate :: "('a tensor \<times> nat) list \<Rightarrow> error + 'a tensor \<times> nat list" where
  "collate samples =
     (case stack (map fst samples) of
        Inl e \<Rightarrow> Inl e
      | Inr images \<Rightarrow> Inr (images, map snd samples))"

text \<open>
  \<^verbatim>\<open>DataLoader(dataset, batch_size, shuffle=False)\<close>: consecutive batches of
  \<^verbatim>\<open>batch_size\<close> samples, the last one shorter when the size does not divide. A batch
  is collated when the loop comes to it, so a batch that cannot be collated is an error
  at its place in the list. A batch size of zero raises ValueError at once.
\<close>

definition DataLoader ::
  "('a tensor \<times> nat) list \<Rightarrow> nat \<Rightarrow> error + (error + 'a tensor \<times> nat list) list" where
  "DataLoader dataset batch_size =
     (if batch_size = 0 then Inl ValueError
      else Inr (map collate (chunks batch_size dataset)))"

subsection \<open>Evaluation\<close>

text \<open>
  The index part of \<^verbatim>\<open>torch.max(outputs, 1)\<close> on one row of scores: the index of the
  first maximal score; a row without a score raises IndexError.
\<close>

fun argmax_from :: "'s::linorder \<Rightarrow> nat \<Rightarrow> nat \<Rightarrow> 's list \<Rightarrow> nat" where
  "argmax_from best besti i [] = besti"
| "argmax_from best besti i (x # xs) =
     (if best < x then argmax_from x i (Suc i) xs else argmax_from best besti (Suc i) xs)"

definition torch_max :: "'s::linorder list \<Rightarrow> error + nat" where
  "torch_max row =
     (case row of [] \<Rightarrow> Inl IndexError | x # xs \<Rightarrow> Inr (argmax_from x 0 1 xs))"

text \<open>
  \<^verbatim>\<open>(predicted == labels).sum().item()\<close> for two index vectors: element by element
  when they are of one length; a vector of length one is compared with every element of
  the other (broadcasting); vectors of other unequal lengths raise RuntimeError.
\<close>

definition count_equal :: "nat list \<Rightarrow> nat list \<Rightarrow> error + nat" where
  "count_equal predicted labels =
     (if length predicted = length labels
      then Inr (length (filter (\<lambda>(p, l). p = l) (zip predicted labels)))
      else if length predicted = 1
      then Inr (length (filter (\<lambda>l. hd predicted = l) labels))
      else if length labels = 1
      then Inr (length (filter (\<lambda>p. p = hd labels) predicted))
      else Inl RuntimeError)"

record evaluation =
  correct :: nat
  total :: nat

text \<open>
  The body of the loop \<^verbatim>\<open>for images, labels in test_loader\<close> on the running tallies,
  inside \<^verbatim>\<open>with torch.no_grad()\<close>: the model is called with gradient recording
  disabled, and nothing is assigned to it.
\<close>

definition evaluate_batch ::
  "(bool \<Rightarrow> 'm \<Rightarrow> 'a tensor \<Rightarrow> error + ('s::linorder) model_output) \<Rightarrow> 'm \<Rightarrow> evaluation \<Rightarrow>
     error + 'a tensor \<times> nat list \<Rightarrow> error + evaluation" where
  "evaluate_batch call model ev batch =
     (case batch of
        Inl e \<Rightarrow> Inl e
      | Inr (images, labels) \<Rightarrow>
          (case call False model images of
             Inl e \<Rightarrow> Inl e
           | Inr outputs \<Rightarrow>
               (case map_result torch_max (scores outputs) of
                  Inl e \<Rightarrow> Inl e
                | Inr predicted \<Rightarrow>
                    (case count_equal predicted labels of
                       Inl e \<Rightarrow> Inl e
                     | Inr matches \<Rightarrow>
                         Inr \<lparr>correct = correct ev + matches,
                              total = total ev + length labels\<rparr>))))"

fun evaluate_loop ::
  "(bool \<Rightarrow> 'm \<Rightarrow> 'a tensor \<Rightarrow> error + ('s::linorder) model_output) \<Rightarrow> 'm \<Rightarrow> evaluation \<Rightarrow>
     (error + 'a tensor \<times> nat list) list \<Rightarrow> error + evaluation" where
  "evaluate_loop call model ev [] = Inr ev"
| "evaluate_loop call model ev (batch # test_loader) =
     (case evaluate_batch call model ev batch of
        Inl e \<Rightarrow> Inl e
      | Inr ev' \<Rightarrow> evaluate_loop call model ev' test_loader)"

text \<open>
  \<^verbatim>\<open>evaluate_model(model, test_loader)\<close>. The mode switch and the call of the model
  are parameters, as the function works on any module; for the classifier they are
  \<open>eval_mode\<close> and \<open>forward\<close>. The result is the model as the function leaves it, the
  final tallies and the percentage \<^verbatim>\<open>100 * correct / total\<close>, which the function
  prints to two decimals and whose division raises ZeroDivisionError on a zero total.
\<close>

definition evaluate_model ::
  "('m \<Rightarrow> 'm) \<Rightarrow> (bool \<Rightarrow> 'm \<Rightarrow> 'a tensor \<Rightarrow> error + ('s::linorder) model_output) \<Rightarrow> 'm \<Rightarrow>
     (error + 'a tensor \<times> nat list) list \<Rightarrow> error + 'm \<times> evaluation \<times> rat" where
  "evaluate_model eval call model test_loader =
     (let model' = eval model
      in case evaluate_loop call model' \<lparr>correct = 0, total = 0\<rparr> test_loader of
           Inl e \<Rightarrow> Inl e
         | Inr ev \<Rightarrow>
             if total ev = 0 then Inl ZeroDivisionError
             else Inr (model', ev, of_nat (100 * correct ev) / of_nat (total ev)))"



subsection \<open>An example network\<close>


section \<open>Properties of the cleaning notebook\<close>

subsection \<open>Columns\<close>

lemma dropna_Nil [simp]: "dropna [] = []"
  by (simp add: dropna_def List.map_filter_simps)

lemma dropna_Cons [simp]:
  "dropna (c # col) = (case c of None \<Rightarrow> dropna col | Some v \<Rightarrow> v # dropna col)"
  by (cases c) (simp_all add: dropna_def List.map_filter_simps)

lemma dropna_map_Some: "dropna (map Some vs) = vs"
  by (induction vs) simp_all

lemma dropna_none_if_negative: "dropna (series_apply none_if_negative col) = valid_values col"
  by (induction col)
     (auto simp: series_apply_def none_if_negative_def valid_values_def split: option.splits)

lemma median_cong: "dropna a = dropna b \<Longrightarrow> median a = median b"
  by (simp add: median_def)

lemma mean_cong: "dropna a = dropna b \<Longrightarrow> mean a = mean b"
  by (simp add: mean_def)

lemma dropna_replicate_None: "dropna (replicate n None) = []"
  by (induction n) simp_all

subsection \<open>The statistic of the second fill\<close>

text \<open>
  Claim C1, as stated, at the age column \<open>[-4, 10, 20]\<close>. Nothing is missing, so the
  first fill changes nothing and the once-filled column has median 10. The notebook
  fills the cell of \<open>-4\<close> with 15, the median of the column after \<open>-4\<close> has been
  replaced by a missing cell; the repair as the claim words it fills it with 10.
\<close>

theorem repair_age_not_as_specified:
  "repair_age [Some (- 4), Some 10, Some 20] = [Some 15, Some 10, Some 20] \<and>
   repair_age_as_specified [Some (- 4), Some 10, Some 20] = [Some 10, Some 10, Some 20]"
  by (simp add: repair_age_def repair_age_as_specified_def fix_invalid_median_def
      fill_with_median_def fillna_def median_def series_apply_def none_if_negative_def)

text \<open>
  Claim C1, amended: the age column is first filled with its median (the purchase
  amount with its mean), then its negative values are replaced by missing cells, and
  these are filled with the median (mean) of the non-negative present values of the
  once-filled column, that is, of the column with the negatives already removed.
\<close>

theorem repair_second_statistic:
  "repair_age col =
     fillna (series_apply none_if_negative (fill_with_median col))
       (median (map Some (valid_values (fill_with_median col)))) \<and>
   repair_purchase_amount col =
     fillna (series_apply none_if_negative (fill_with_mean col))
       (mean (map Some (valid_values (fill_with_mean col))))"
proof -
  have m: "median (series_apply none_if_negative c) = median (map Some (valid_values c))" for c
    by (rule median_cong) (simp add: dropna_none_if_negative dropna_map_Some)
  have a: "mean (series_apply none_if_negative c) = mean (map Some (valid_values c))" for c
    by (rule mean_cong) (simp add: dropna_none_if_negative dropna_map_Some)
  show ?thesis
    by (simp add: repair_age_def repair_purchase_amount_def fix_invalid_median_def
        fix_invalid_mean_def Let_def m a)
qed

theorem repair_second_statistic_witness:
  "repair_age [Some (- 4), Some 10, Some 20] =
     fillna [None, Some 10, Some 20] (median [Some 10, Some 20]) \<and>
   repair_purchase_amount [Some (- 4), None, Some 10] =
     fillna [None, Some 3, Some 10] (mean [Some 3, Some 10])"
  using repair_second_statistic [of "[Some (- 4), Some 10, Some 20]"]
    repair_second_statistic [of "[Some (- 4), None, Some 10]"]
  by (simp add: fill_with_median_def fill_with_mean_def fillna_def median_def mean_def
      series_apply_def none_if_negative_def valid_values_def)

subsection \<open>A column without a present value\<close>

text \<open>
  Claim C3, as stated, at the column of two missing cells: the statistic-based fill
  returns the column, both cells still missing, and raises nothing.
\<close>

theorem fill_all_null_returns:
  "fill_with_median [None, None] = [None, None] \<and> fill_with_mean [None, None] = [None, None]"
  by (simp add: fill_with_median_def fill_with_mean_def fillna_def median_def mean_def)

text \<open>
  Claim C3, amended: on a column whose cells are all missing, the statistic is
  undefined and the statistic-based fill raises no error; it returns the column
  unchanged, every cell still missing.
\<close>

theorem fill_all_null_unchanged:
  "median (replicate n None) = None \<and> mean (replicate n None) = None \<and>
   fill_with_median (replicate n None) = replicate n None \<and>
   fill_with_mean (replicate n None) = replicate n None"
  by (simp add: fill_with_median_def fill_with_mean_def fillna_def median_def mean_def
      dropna_replicate_None)

theorem fill_all_null_unchanged_witness:
  "median [None, None, None] = None \<and> mean [None, None, None] = None \<and>
   fill_with_median [None, None, None] = [None, None, None] \<and>
   fill_with_mean [None, None, None] = [None, None, None]"
  using fill_all_null_unchanged [of 3] by (simp add: numeral_3_eq_3)

subsection \<open>The age clamp\<close>

text \<open>
  Claim C4: clamping a column of ages to \<open>[18, 90]\<close> twice gives the column that
  clamping once gives.
\<close>

theorem clip_idempotent: "clip 18 90 (clip 18 90 col) = clip 18 90 col"
  by (simp add: clip_def option.map_comp comp_def)

theorem clip_idempotent_witness:
  "clip 18 90 (clip 18 90 [Some 5, None, Some 40, Some 120]) = [Some 18, None, Some 40, Some 90]"
  using clip_idempotent [of "[Some 5, None, Some 40, Some 120]"] by (simp add: clip_def)

subsection \<open>Age groups\<close>

text \<open>
  Claim C5: every age in \<open>[18, 90]\<close> gets the one label of the interval among
  \<open>(17, 25]\<close>, \<open>(25, 35]\<close>, \<open>(35, 50]\<close>, \<open>(50, 65]\<close>, \<open>(65, 90]\<close> that holds it, and the
  age-group column is this function of the age applied to every cell on its own.
\<close>

theorem age_group_total:
  assumes "18 \<le> a" and "a \<le> 90"
  shows "age_group_of (Some a) =
           Some (if a \<le> 25 then ''18-25'' else if a \<le> 35 then ''26-35''
                 else if a \<le> 50 then ''36-50'' else if a \<le> 65 then ''51-65'' else ''65+'') \<and>
         pd_cut col age_bins age_labels = Inr (map age_group_of col)"
proof -
  have "pd_cut col age_bins age_labels = Inr (map age_group_of col)"
    by (simp add: pd_cut_def bins_to_cuts_def age_bins_def age_labels_def age_group_of_def)
  moreover have "age_group_of (Some a) =
           Some (if a \<le> 25 then ''18-25'' else if a \<le> 35 then ''26-35''
                 else if a \<le> 50 then ''36-50'' else if a \<le> 65 then ''51-65'' else ''65+'')"
    using assms
    by (simp add: age_group_of_def cut_cell_def searchsorted_left_def age_bins_def age_labels_def)
  ultimately show ?thesis by simp
qed

theorem age_group_total_witness:
  "(18::rat) \<le> 51 / 2 \<and> (51 / 2 :: rat) \<le> 90 \<and> age_group_of (Some (51 / 2)) = Some ''26-35'' \<and>
   pd_cut [Some 18, None, Some 90] age_bins age_labels = Inr [Some ''18-25'', None, Some ''65+'']"
  using age_group_total [of "51 / 2" "[Some 18, None, Some 90]"]
  by (simp add: age_group_of_def cut_cell_def searchsorted_left_def age_bins_def age_labels_def)

subsection \<open>The cells as functions of the columns\<close>

lemma repair_and_constrain_fields:
  assumes "repair_and_constrain df = Inr df'"
  shows "customer_id df' = customer_id df" and "name df' = name df"
    and "phone_number df' = phone_number df" and "purchase_date df' = purchase_date df"
    and "email df' = fillna (email df) (Some ''unknown'')"
    and "category df' = fillna (category df) (Some ''Other'')"
    and "age df' = clip 18 90 (repair_age (age df))"
    and "purchase_amount df' = round_series 2 (repair_purchase_amount (purchase_amount df))"
    and "astype_int (round_series 0 (fill_with_median (satisfaction_score df))) =
           Inr (satisfaction_score df')"
  using assms
  by (auto simp: repair_and_constrain_def validation_and_constraints_def
      handle_invalid_values_def handle_missing_values_def Let_def repair_age_def
      repair_purchase_amount_def split: sum.splits)

lemma repair_and_constrain_succeeds:
  assumes "astype_int (round_series 0 (fill_with_median (satisfaction_score df))) = Inr s"
  shows "\<exists>df'. repair_and_constrain df = Inr df'"
  using assms
  by (simp add: repair_and_constrain_def validation_and_constraints_def
      handle_invalid_values_def handle_missing_values_def Let_def)

lemma feature_engineering_fields:
  assumes "feature_engineering lerp df = Inr df'"
  shows "customer_id df' = customer_id df" and "name df' = name df"
    and "phone_number df' = phone_number df" and "purchase_date df' = purchase_date df"
    and "email df' = email df" and "category df' = category df" and "age df' = age df"
    and "purchase_amount df' = purchase_amount df"
    and "satisfaction_score df' = satisfaction_score df"
    and "purchase_month df' = map month (purchase_date df)"
    and "pd_qcut lerp (purchase_amount df) 4 purchase_labels = Inr (purchase_category df')"
    and "pd_cut (age df) age_bins age_labels = Inr (age_group df')"
  using assms
  by (auto simp: feature_engineering_def Let_def dataframe.defs featured_dataframe.defs
      split: sum.splits)


subsection \<open>The table after repair and constraints\<close>

lemma fillna_no_null: "None \<notin> set (fillna col (Some v))"
  by (auto simp: fillna_def split: option.splits)

lemma fillna_cells: "Some x \<in> set (fillna col (Some v)) \<Longrightarrow> Some x \<in> set col \<or> x = v"
  by (auto simp: fillna_def split: option.splits)

lemma set_dropna: "v \<in> set (dropna col) \<longleftrightarrow> Some v \<in> set col"
  by (induction col) (auto split: option.splits)

lemma mean_nonneg:
  assumes "mean col = Some m" and "\<forall>v. Some v \<in> set col \<longrightarrow> 0 \<le> v"
  shows "0 \<le> m"
proof -
  have "0 \<le> sum_list (dropna col)"
    using assms(2) by (intro sum_list_nonneg) (simp add: set_dropna)
  then show ?thesis
    using assms(1) by (auto simp: mean_def Let_def split: if_splits)
qed

lemma Some_eq_map_option_iff: "Some y = map_option f x \<longleftrightarrow> (\<exists>z. x = Some z \<and> y = f z)"
  by (cases x) auto

lemma none_if_negative_cells:
  "Some v \<in> set (series_apply none_if_negative col) \<Longrightarrow> 0 \<le> v"
  by (auto simp: series_apply_def none_if_negative_def split: option.splits if_splits)

lemma rint_nonneg: "0 \<le> x \<Longrightarrow> 0 \<le> rint x"
  by (auto simp: rint_def Let_def)

lemma round_series_cells:
  "None \<in> set (round_series d col) \<longleftrightarrow> None \<in> set col"
  by (auto simp: round_series_def)

lemma round_series_nonneg:
  assumes "\<forall>v. Some v \<in> set col \<longrightarrow> 0 \<le> v" and "Some p \<in> set (round_series d col)"
  shows "0 \<le> p"
proof -
  from assms(2) obtain v where v: "Some v \<in> set col"
    and p: "p = of_int (rint (v * 10 ^ d)) / 10 ^ d"
    by (auto simp: round_series_def Some_eq_map_option_iff)
  have "0 \<le> v * 10 ^ d" using assms(1) v by simp
  then have "0 \<le> rint (v * 10 ^ d)" by (rule rint_nonneg)
  then show ?thesis by (simp add: p)
qed

lemma clip_cells:
  "None \<in> set (clip 18 90 col) \<longleftrightarrow> None \<in> set col"
  "Some a \<in> set (clip 18 90 col) \<Longrightarrow> 18 \<le> a \<and> a \<le> 90"
  by (auto simp: clip_def Some_eq_map_option_iff)

lemma astype_int_cells:
  "None \<notin> set col \<Longrightarrow> \<exists>s. astype_int col = Inr s \<and> None \<notin> set s"
  by (auto simp: astype_int_def)

text \<open>
  Claim C2: when the statistic of every statistic-based fill is defined, the cells of
  sections 2 to 4 run without an error and leave no missing cell in any column, every
  age in \<open>[18, 90]\<close> and every purchase amount non-negative.
\<close>

theorem repair_and_constrain_valid:
  assumes "fill_statistics_defined df"
  shows "\<exists>df'. repair_and_constrain df = Inr df' \<and>
           None \<notin> set (age df') \<and> None \<notin> set (email df') \<and>
           None \<notin> set (purchase_amount df') \<and> None \<notin> set (category df') \<and>
           None \<notin> set (satisfaction_score df') \<and>
           (\<forall>a. Some a \<in> set (age df') \<longrightarrow> 18 \<le> a \<and> a \<le> 90) \<and>
           (\<forall>p. Some p \<in> set (purchase_amount df') \<longrightarrow> 0 \<le> p)"
proof -
  from assms obtain ms ma mp ma' mp' where
    ms: "median (satisfaction_score df) = Some ms" and
    ma: "median (age df) = Some ma" and
    mp: "mean (purchase_amount df) = Some mp" and
    ma': "median (series_apply none_if_negative (fill_with_median (age df))) = Some ma'" and
    mp': "mean (series_apply none_if_negative (fill_with_mean (purchase_amount df))) = Some mp'"
    by (auto simp: fill_statistics_defined_def)
  have sat: "None \<notin> set (round_series 0 (fill_with_median (satisfaction_score df)))"
    by (simp add: round_series_cells fill_with_median_def ms fillna_no_null)
  then obtain s where s: "astype_int (round_series 0 (fill_with_median (satisfaction_score df))) = Inr s"
    and s_null: "None \<notin> set s"
    using astype_int_cells by blast
  obtain df' where df': "repair_and_constrain df = Inr df'"
    using repair_and_constrain_succeeds [OF s] by blast
  note f = repair_and_constrain_fields [OF df']
  have age_def: "repair_age (age df) =
      fillna (series_apply none_if_negative (fill_with_median (age df))) (Some ma')"
    by (simp add: repair_age_def fix_invalid_median_def Let_def ma')
  have pa_def: "repair_purchase_amount (purchase_amount df) =
      fillna (series_apply none_if_negative (fill_with_mean (purchase_amount df))) (Some mp')"
    by (simp add: repair_purchase_amount_def fix_invalid_mean_def Let_def mp')
  have mp'_nonneg: "0 \<le> mp'"
    by (rule mean_nonneg [OF mp']) (blast dest: none_if_negative_cells)
  have pa_nonneg: "\<forall>v. Some v \<in> set (repair_purchase_amount (purchase_amount df)) \<longrightarrow> 0 \<le> v"
  proof (intro allI impI)
    fix v
    assume "Some v \<in> set (repair_purchase_amount (purchase_amount df))"
    then have "Some v \<in> set (series_apply none_if_negative (fill_with_mean (purchase_amount df)))
        \<or> v = mp'"
      unfolding pa_def by (rule fillna_cells)
    then show "0 \<le> v"
      using mp'_nonneg none_if_negative_cells by blast
  qed
  have n_age: "None \<notin> set (age df')"
    unfolding f(7) age_def by (simp add: clip_cells(1) fillna_no_null)
  have n_email: "None \<notin> set (email df')"
    unfolding f(5) by (rule fillna_no_null)
  have n_cat: "None \<notin> set (category df')"
    unfolding f(6) by (rule fillna_no_null)
  have n_pa: "None \<notin> set (purchase_amount df')"
    unfolding f(8) pa_def by (simp add: round_series_cells fillna_no_null)
  have n_sat: "None \<notin> set (satisfaction_score df')"
    using f(9) s s_null by simp
  have r_age: "\<forall>a. Some a \<in> set (age df') \<longrightarrow> 18 \<le> a \<and> a \<le> 90"
    unfolding f(7) by (intro allI impI) (rule clip_cells(2))
  have r_pa: "\<forall>p. Some p \<in> set (purchase_amount df') \<longrightarrow> 0 \<le> p"
    unfolding f(8) by (intro allI impI) (rule round_series_nonneg [OF pa_nonneg])
  show ?thesis
    by (intro exI [of _ df'] conjI df' n_age n_email n_pa n_cat n_sat r_age r_pa)
qed

theorem repair_and_constrain_valid_witness:
  "fill_statistics_defined example_table \<and>
   (\<exists>df'. repair_and_constrain example_table = Inr df' \<and>
      age df' = [Some 30, Some 30, Some 30, Some 30, Some 90, Some 18] \<and>
      purchase_amount df' = [Some 100, Some 100, Some 200, Some 140, Some 188, Some 400] \<and>
      None \<notin> set (age df') \<and> None \<notin> set (email df') \<and>
      None \<notin> set (purchase_amount df') \<and> None \<notin> set (category df') \<and>
      None \<notin> set (satisfaction_score df'))"
proof -
  have d: "fill_statistics_defined example_table"
    by code_simp
  have a: "map_sum id age (repair_and_constrain example_table) =
             Inr [Some 30, Some 30, Some 30, Some 30, Some 90, Some 18]"
    by code_simp
  have p: "map_sum id purchase_amount (repair_and_constrain example_table) =
             Inr [Some 100, Some 100, Some 200, Some 140, Some 188, Some 400]"
    by code_simp
  from repair_and_constrain_valid [OF d] obtain df' where
    r: "repair_and_constrain example_table = Inr df'" and
    n: "None \<notin> set (age df')" "None \<notin> set (email df')" "None \<notin> set (purchase_amount df')"
       "None \<notin> set (category df')" "None \<notin> set (satisfaction_score df')"
    by blast
  have "age df' = [Some 30, Some 30, Some 30, Some 30, Some 90, Some 18]"
    using a by (simp add: r)
  moreover have "purchase_amount df' = [Some 100, Some 100, Some 200, Some 140, Some 188, Some 400]"
    using p by (simp add: r)
  ultimately show ?thesis
    using d r n by (intro conjI exI [of _ df']) simp_all
qed


subsection \<open>Rows\<close>

lemma length_fillna [simp]: "length (fillna col v) = length col"
  by (simp add: fillna_def)

lemma length_clip [simp]: "length (clip lo hi col) = length col"
  by (simp add: clip_def)

lemma length_round_series [simp]: "length (round_series d col) = length col"
  by (simp add: round_series_def)

lemma length_repair_age [simp]: "length (repair_age col) = length col"
  by (simp add: repair_age_def fix_invalid_median_def fill_with_median_def series_apply_def Let_def)

lemma length_repair_purchase_amount [simp]: "length (repair_purchase_amount col) = length col"
  by (simp add: repair_purchase_amount_def fix_invalid_mean_def fill_with_mean_def
      series_apply_def Let_def)

lemma length_fill_with_median [simp]: "length (fill_with_median col) = length col"
  by (simp add: fill_with_median_def)

lemma length_astype_int: "astype_int col = Inr s \<Longrightarrow> length s = length col"
  by (auto simp: astype_int_def split: if_splits)

lemma length_bins_to_cuts: "bins_to_cuts col bins labels il = Inr r \<Longrightarrow> length r = length col"
  by (auto simp: bins_to_cuts_def split: if_splits)

lemma length_pd_qcut: "pd_qcut lerp col q labels = Inr r \<Longrightarrow> length r = length col"
  by (auto simp: pd_qcut_def dest: length_bins_to_cuts split: if_splits)

lemma length_pd_cut: "pd_cut col bins labels = Inr r \<Longrightarrow> length r = length col"
  by (auto simp: pd_cut_def dest: length_bins_to_cuts split: if_splits)

lemma cleaning_pipeline_steps:
  assumes "cleaning_pipeline lerp df = Inr df'"
  obtains df1 where "repair_and_constrain df = Inr df1"
    and "feature_engineering lerp df1 = Inr df'"
  using assms by (auto simp: cleaning_pipeline_def split: sum.splits)

lemma repair_age_cellwise:
  "\<exists>f. clip 18 90 (repair_age col) = map f col \<and>
       (\<forall>a. 0 \<le> a \<longrightarrow> f (Some a) = Some (min 90 (max 18 a)))"
proof -
  define m1 where "m1 = median col"
  define c1 where "c1 = series_apply none_if_negative (fill_with_median col)"
  define m2 where "m2 = median c1"
  define f where "f = (\<lambda>c. map_option (\<lambda>v. min 90 (max 18 v))
              (case none_if_negative (case c of None \<Rightarrow> m1 | Some v \<Rightarrow> Some v) of
                 None \<Rightarrow> m2 | Some v \<Rightarrow> Some v))"
  have c1: "c1 = map (\<lambda>c. none_if_negative (case c of None \<Rightarrow> m1 | Some v \<Rightarrow> Some v)) col"
    unfolding c1_def m1_def by (simp add: series_apply_def fill_with_median_def fillna_def)
  have "clip 18 90 (repair_age col) = clip 18 90 (fillna c1 m2)"
    by (simp add: repair_age_def fix_invalid_median_def Let_def c1_def m2_def)
  also have "\<dots> = map f col"
    unfolding c1 by (simp add: clip_def fillna_def f_def)
  finally have "clip 18 90 (repair_age col) = map f col" .
  moreover have "\<forall>a. 0 \<le> a \<longrightarrow> f (Some a) = Some (min 90 (max 18 a))"
    by (simp add: f_def none_if_negative_def)
  ultimately show ?thesis by blast
qed

lemma repair_purchase_amount_cellwise:
  "\<exists>g. round_series 2 (repair_purchase_amount col) = map g col \<and>
       (\<forall>p. 0 \<le> p \<longrightarrow> g (Some p) = Some (of_int (rint (p * 100)) / 100))"
proof -
  define m1 where "m1 = mean col"
  define c1 where "c1 = series_apply none_if_negative (fill_with_mean col)"
  define m2 where "m2 = mean c1"
  define g where "g = (\<lambda>c. map_option (\<lambda>v. of_int (rint (v * 100)) / (100 :: rat))
              (case none_if_negative (case c of None \<Rightarrow> m1 | Some v \<Rightarrow> Some v) of
                 None \<Rightarrow> m2 | Some v \<Rightarrow> Some v))"
  have c1: "c1 = map (\<lambda>c. none_if_negative (case c of None \<Rightarrow> m1 | Some v \<Rightarrow> Some v)) col"
    unfolding c1_def m1_def by (simp add: series_apply_def fill_with_mean_def fillna_def)
  have "round_series 2 (repair_purchase_amount col) = round_series 2 (fillna c1 m2)"
    by (simp add: repair_purchase_amount_def fix_invalid_mean_def Let_def c1_def m2_def)
  also have "\<dots> = map g col"
    unfolding c1 by (simp add: round_series_def fillna_def g_def)
  finally have "round_series 2 (repair_purchase_amount col) = map g col" .
  moreover have "\<forall>p. 0 \<le> p \<longrightarrow> g (Some p) = Some (of_int (rint (p * 100)) / 100)"
    by (simp add: g_def none_if_negative_def)
  ultimately show ?thesis by blast
qed

lemma satisfaction_cellwise:
  assumes "astype_int (round_series 0 (fill_with_median col)) = Inr s"
  shows "\<exists>h. s = map h col"
proof -
  have "s = map (map_option (\<lambda>v. of_int (int64_of v)))
              (round_series 0 (fill_with_median col))"
    using assms by (auto simp: astype_int_def split: if_splits)
  then show ?thesis
    unfolding round_series_def fill_with_median_def fillna_def map_map by blast
qed

lemma pd_qcut_cells:
  "pd_qcut lerp col q labels = Inr r \<Longrightarrow>
     r = map (cut_cell (qcut_bins lerp col q) labels True) col"
  by (auto simp: pd_qcut_def bins_to_cuts_def split: if_splits)

lemma pd_cut_cells:
  "pd_cut col age_bins age_labels = Inr r \<Longrightarrow> r = map age_group_of col"
  by (auto simp: pd_cut_def bins_to_cuts_def age_group_of_def split: if_splits)

text \<open>
  Claim C10: a run of the cleaning notebook that ends without an error keeps the number
  of rows in every column, old and new, leaves the customer id, name, phone number and
  purchase date columns as they are, and makes every other column, old and new, cell by
  cell from the cell of the same row, so no row is dropped, added or moved; the quality
  metrics count the rows, duplicates among them, without removing any.
\<close>

theorem cleaning_pipeline_preserves_rows:
  assumes wf: "well_formed df n" and run: "cleaning_pipeline lerp df = Inr df'"
  shows "len df' = n \<and> total_records (compute_quality_metrics df') = n \<and>
         customer_id df' = customer_id df \<and> name df' = name df \<and>
         phone_number df' = phone_number df \<and> purchase_date df' = purchase_date df \<and>
         length (age df') = n \<and> length (email df') = n \<and> length (purchase_amount df') = n \<and>
         length (category df') = n \<and> length (satisfaction_score df') = n \<and>
         length (purchase_month df') = n \<and> length (purchase_category df') = n \<and>
         length (age_group df') = n \<and>
         email df' = fillna (email df) (Some ''unknown'') \<and>
         category df' = fillna (category df) (Some ''Other'') \<and>
         (\<exists>f. age df' = map f (age df) \<and>
              (\<forall>a. 0 \<le> a \<longrightarrow> f (Some a) = Some (min 90 (max 18 a)))) \<and>
         (\<exists>g. purchase_amount df' = map g (purchase_amount df) \<and>
              (\<forall>p. 0 \<le> p \<longrightarrow> g (Some p) = Some (of_int (rint (p * 100)) / 100))) \<and>
         (\<exists>h. satisfaction_score df' = map h (satisfaction_score df)) \<and>
         purchase_month df' = map month (purchase_date df) \<and>
         purchase_category df' =
           map (cut_cell (qcut_bins lerp (purchase_amount df') 4) purchase_labels True)
             (purchase_amount df') \<and>
         age_group df' = map age_group_of (age df')"
proof -
  from run obtain df1 where r: "repair_and_constrain df = Inr df1"
    and fe: "feature_engineering lerp df1 = Inr df'"
    by (rule cleaning_pipeline_steps)
  note a = repair_and_constrain_fields [OF r]
  note b = feature_engineering_fields [OF fe]
  have ids: "customer_id df' = customer_id df" "name df' = name df"
    "phone_number df' = phone_number df" "purchase_date df' = purchase_date df"
    by (simp_all add: a b)
  have em: "email df' = fillna (email df) (Some ''unknown'')"
    and ca: "category df' = fillna (category df) (Some ''Other'')"
    and ag: "age df' = clip 18 90 (repair_age (age df))"
    and pa: "purchase_amount df' = round_series 2 (repair_purchase_amount (purchase_amount df))"
    by (simp_all add: a b)
  have sa: "length (satisfaction_score df') = length (satisfaction_score df)"
    using length_astype_int [OF a(9)] by (simp add: b)
  have pm: "length (purchase_month df') = length (purchase_date df)"
    by (simp add: b a)
  have pc: "length (purchase_category df') = length (purchase_amount df)"
    using length_pd_qcut [OF b(11)] by (simp add: a)
  have gr: "length (age_group df') = length (age df)"
    using length_pd_cut [OF b(12)] by (simp add: a)
  have lens: "length (age df') = n" "length (email df') = n" "length (purchase_amount df') = n"
    "length (category df') = n" "length (satisfaction_score df') = n"
    "length (purchase_month df') = n" "length (purchase_category df') = n"
    "length (age_group df') = n"
    using wf by (simp_all add: well_formed_def em ca ag pa sa pm pc gr)
  have l: "len df' = n"
    using wf by (simp add: len_def ids well_formed_def)
  have t: "total_records (compute_quality_metrics df') = n"
    using l by (simp add: compute_quality_metrics_def)
  have fa: "\<exists>f. age df' = map f (age df) \<and>
              (\<forall>a. 0 \<le> a \<longrightarrow> f (Some a) = Some (min 90 (max 18 a)))"
    unfolding ag by (rule repair_age_cellwise)
  have fp: "\<exists>g. purchase_amount df' = map g (purchase_amount df) \<and>
              (\<forall>p. 0 \<le> p \<longrightarrow> g (Some p) = Some (of_int (rint (p * 100)) / 100))"
    unfolding pa by (rule repair_purchase_amount_cellwise)
  have fs: "\<exists>h. satisfaction_score df' = map h (satisfaction_score df)"
    using satisfaction_cellwise [OF a(9)] by (simp add: b)
  have mo: "purchase_month df' = map month (purchase_date df)"
    by (simp add: b a)
  have pcat: "purchase_category df' =
           map (cut_cell (qcut_bins lerp (purchase_amount df') 4) purchase_labels True)
             (purchase_amount df')"
    using pd_qcut_cells [OF b(11)] by (simp add: b)
  have grp: "age_group df' = map age_group_of (age df')"
    using pd_cut_cells [OF b(12)] by (simp add: b)
  show ?thesis
    by (intro conjI l t ids lens em ca fa fp fs mo pcat grp)
qed


theorem cleaning_pipeline_preserves_rows_witness:
  "well_formed example_table 6 \<and>
   cleaning_pipeline exact_lerp example_table = Inr example_cleaned \<and>
   len example_cleaned = 6 \<and>
   total_records (compute_quality_metrics example_cleaned) = 6 \<and>
   duplicate_records (compute_quality_metrics example_cleaned) = 1 \<and>
   customer_id example_cleaned = customer_id example_table \<and>
   name example_cleaned = name example_table \<and>
   phone_number example_cleaned = phone_number example_table"
proof -
  have wf: "well_formed example_table 6"
    by code_simp
  have run: "cleaning_pipeline exact_lerp example_table = Inr example_cleaned"
    by code_simp
  have dup: "duplicate_records (compute_quality_metrics example_cleaned) = 1"
    by code_simp
  show ?thesis
    using cleaning_pipeline_preserves_rows [OF wf run] wf run dup by simp
qed

subsection \<open>Purchase categories\<close>


lemma quantile_position:
  assumes "k \<le> 4"
  shows "nat \<lfloor>of_nat m * (of_nat k / (4 :: rat))\<rfloor> = (m * k) div 4"
    and "of_nat m * (of_nat k / (4 :: rat)) - of_nat ((m * k) div 4) = of_nat ((m * k) mod 4) / 4"
proof -
  have eq: "of_nat m * (of_nat k / (4 :: rat)) = of_nat (m * k) / of_nat 4"
    by simp
  show "nat \<lfloor>of_nat m * (of_nat k / (4 :: rat))\<rfloor> = (m * k) div 4"
    unfolding eq floor_divide_of_nat_eq by simp
  have "(of_nat (m * k) :: rat) = of_nat (4 * ((m * k) div 4) + (m * k) mod 4)"
    by simp
  also have "\<dots> = 4 * of_nat ((m * k) div 4) + of_nat ((m * k) mod 4)"
    by (simp only: of_nat_add of_nat_mult of_nat_numeral)
  finally have e: "(of_nat (m * k) :: rat) = 4 * of_nat ((m * k) div 4) + of_nat ((m * k) mod 4)" .
  have alg: "(4 * X + Y) / 4 - X = Y / 4" for X Y :: rat
    by (simp add: add_divide_distrib)
  show "of_nat m * (of_nat k / (4 :: rat)) - of_nat ((m * k) div 4) = of_nat ((m * k) mod 4) / 4"
    unfolding eq e of_nat_numeral by (rule alg)
qed

lemma quantile_exact:
  "quantile exact_lerp vs q =
     (let h = of_nat (length vs - 1) * q;
          lo = nat \<lfloor>h\<rfloor>;
          hi = min (lo + 1) (length vs - 1)
      in vs ! lo + (h - of_nat lo) * (vs ! hi - vs ! lo))"
  by (simp add: quantile_def exact_lerp_def Let_def mult.commute)

lemma quantile_bracket:
  assumes s: "sorted_wrt (<) vs" and ne: "vs \<noteq> []" and k: "k \<le> 4"
  shows "(length vs - 1) * k div 4 < length vs"
    and "vs ! ((length vs - 1) * k div 4) \<le> quantile exact_lerp vs (of_nat k / 4)"
    and "Suc ((length vs - 1) * k div 4) < length vs \<Longrightarrow>
           quantile exact_lerp vs (of_nat k / 4) < vs ! Suc ((length vs - 1) * k div 4)"
proof -
  define m where "m = length vs - 1"
  define lo where "lo = m * k div 4"
  define fr :: rat where "fr = of_nat (m * k mod 4) / 4"
  have n: "length vs = Suc m" using ne by (cases vs) (simp_all add: m_def)
  have "m * k div 4 \<le> m * 4 div 4"
    using k by (intro div_le_mono) simp
  then have lo_le: "lo \<le> m" by (simp add: lo_def)
  have p1: "nat \<lfloor>of_nat m * (of_nat k / (4 :: rat))\<rfloor> = lo"
    and p2: "of_nat m * (of_nat k / (4 :: rat)) - of_nat lo = fr"
    using quantile_position [OF k, of m] by (simp_all add: lo_def fr_def)
  have q: "quantile exact_lerp vs (of_nat k / 4) = vs ! lo + fr * (vs ! min (lo + 1) m - vs ! lo)"
    unfolding quantile_exact Let_def m_def [symmetric] p1 p2 by (rule refl)
  have fr: "0 \<le> fr" "fr < 1"
    by (simp_all add: fr_def)
  show "(length vs - 1) * k div 4 < length vs"
    using lo_le by (simp add: n m_def [symmetric] lo_def [symmetric])
  have up: "vs ! lo \<le> vs ! min (lo + 1) m"
    using s lo_le n sorted_nth_mono [of vs lo "min (lo + 1) m"]
    by (simp add: strict_sorted_iff)
  show "vs ! ((length vs - 1) * k div 4) \<le> quantile exact_lerp vs (of_nat k / 4)"
    unfolding m_def [symmetric] lo_def [symmetric] q using fr up by simp
  show "quantile exact_lerp vs (of_nat k / 4) < vs ! Suc ((length vs - 1) * k div 4)"
    if "Suc ((length vs - 1) * k div 4) < length vs"
  proof -
    from that have lt: "Suc lo \<le> m" by (simp add: n m_def [symmetric] lo_def [symmetric])
    then have hi: "min (lo + 1) m = Suc lo" by simp
    have d: "vs ! lo < vs ! Suc lo"
      using sorted_wrt_nth_less [OF s, of lo "Suc lo"] lt n by simp
    have "fr * (vs ! Suc lo - vs ! lo) < 1 * (vs ! Suc lo - vs ! lo)"
      using fr d by (intro mult_strict_right_mono) simp_all
    then show ?thesis
      unfolding m_def [symmetric] lo_def [symmetric] q hi by simp
  qed
qed


lemma quantile_formula:
  assumes k: "k \<le> 4"
  shows "quantile exact_lerp vs (of_nat k / 4) =
           vs ! ((length vs - 1) * k div 4) +
           of_nat ((length vs - 1) * k mod 4) / 4 *
             (vs ! min ((length vs - 1) * k div 4 + 1) (length vs - 1) -
              vs ! ((length vs - 1) * k div 4))"
proof -
  have p1: "nat \<lfloor>of_nat (length vs - 1) * (of_nat k / (4 :: rat))\<rfloor> = (length vs - 1) * k div 4"
    and p2: "of_nat (length vs - 1) * (of_nat k / (4 :: rat)) - of_nat ((length vs - 1) * k div 4) =
             of_nat ((length vs - 1) * k mod 4) / 4"
    using quantile_position [OF k, of "length vs - 1"] by simp_all
  show ?thesis
    unfolding quantile_exact Let_def p1 p2 by (rule refl)
qed

lemma edges_increase:
  fixes vs :: "rat list"
  assumes s: "sorted_wrt (<) vs" and n: "2 \<le> length vs" and k: "k < 4"
  shows "quantile exact_lerp vs (of_nat k / 4) < quantile exact_lerp vs (of_nat (Suc k) / 4)"
proof -
  define m where "m = length vs - 1"
  have ne: "vs \<noteq> []" using n by auto
  have len: "length vs = Suc m" and m: "1 \<le> m" using n by (simp_all add: m_def)
  have k1: "k \<le> 4" and k2: "Suc k \<le> 4" using k by simp_all
  define a where "a = m * k div 4"
  define b where "b = m * Suc k div 4"
  have ab: "a \<le> b" by (simp add: a_def b_def div_le_mono)
  note A = quantile_bracket [OF s ne k1, unfolded m_def [symmetric] a_def [symmetric]]
  note B = quantile_bracket [OF s ne k2, unfolded m_def [symmetric] b_def [symmetric]]
  show ?thesis
  proof (cases "a < b")
    case True
    then have "Suc a < length vs" using B(1) by simp
    then have "quantile exact_lerp vs (of_nat k / 4) < vs ! Suc a" by (rule A(3))
    also have "vs ! Suc a \<le> vs ! b"
      using s True B(1) sorted_nth_mono [of vs "Suc a" b] by (simp add: strict_sorted_iff)
    also have "\<dots> \<le> quantile exact_lerp vs (of_nat (Suc k) / 4)" by (rule B(2))
    finally show ?thesis .
  next
    case False
    then have eq: "b = a" using ab by simp
    define x where "x = m * k"
    have y: "m * Suc k = x + m" by (simp add: x_def)
    have "m * k \<le> m * 3" using k by (intro mult_le_mono2) simp
    then have bound: "x + m \<le> 4 * m" by (simp add: x_def)
    have same: "(x + m) div 4 = x div 4"
      using eq by (simp add: a_def b_def y x_def [symmetric])
    have dm1: "4 * (x div 4) + x mod 4 = x"
      by (rule mult_div_mod_eq)
    have dm2: "4 * ((x + m) div 4) + (x + m) mod 4 = x + m"
      by (rule mult_div_mod_eq)
    have mods: "x mod 4 < (x + m) mod 4"
      using m dm1 dm2 unfolding same by linarith
    have am: "x div 4 < m"
      using mods bound dm2 unfolding same by linarith
    have a_x: "a = x div 4" by (simp add: a_def x_def)
    have d: "vs ! a < vs ! Suc a"
      using sorted_wrt_nth_less [OF s, of a "Suc a"] am len by (simp add: a_x)
    have hi: "min (a + 1) m = Suc a" using am by (simp add: a_x)
    have fa: "quantile exact_lerp vs (of_nat k / 4) = vs ! a + of_nat (x mod 4) / 4 * (vs ! Suc a - vs ! a)"
      using quantile_formula [OF k1, of vs]
      unfolding m_def [symmetric] x_def [symmetric] a_x [symmetric] hi .
    have fb: "quantile exact_lerp vs (of_nat (Suc k) / 4) =
                vs ! a + of_nat ((x + m) mod 4) / 4 * (vs ! Suc a - vs ! a)"
      using quantile_formula [OF k2, of vs]
      unfolding m_def [symmetric] y same a_x [symmetric] hi .
    have "(of_nat (x mod 4) :: rat) / 4 < of_nat ((x + m) mod 4) / 4"
      using mods by simp
    then have "of_nat (x mod 4) / 4 * (vs ! Suc a - vs ! a) <
               of_nat ((x + m) mod 4) / 4 * (vs ! Suc a - vs ! a)"
      using d by (intro mult_strict_right_mono) simp_all
    then show ?thesis
      unfolding fa fb by simp
  qed
qed







lemma no_null_column: "None \<notin> set col \<Longrightarrow> col = map Some (dropna col)"
proof (induction col)
  case Nil
  show ?case by simp
next
  case (Cons c col)
  then show ?case by (cases c) simp_all
qed

lemma upt_5: "[0..<Suc 4] = [0, 1, 2, 3, 4]"
  by (simp add: upt_rec)





lemma qcut_bins_4:
  "qcut_bins lerp col 4 =
     map (\<lambda>k. quantile lerp (sort (dropna col)) (of_nat k / 4)) [0, 1, 2, 3, 4]"
  unfolding qcut_bins_def upt_5 of_nat_numeral by (rule refl)

lemma list_all_upt_5: "list_all P [0..<5] \<longleftrightarrow> P 0 \<and> P 1 \<and> P 2 \<and> P 3 \<and> P (4 :: nat)"
proof -
  have "[0..<5] = [0, 1, 2, 3, 4 :: nat]"
    by (simp add: upt_rec)
  then show ?thesis by simp
qed

text \<open>
  Without rounding in the interpolation, the edges of a column of at least two values,
  none repeated, stand in place.
\<close>

lemma exact_edges_in_place:
  assumes nn: "None \<notin> set col" and dist: "distinct col" and n: "2 \<le> length col"
  shows "quartile_edges_in_place (sort (dropna col)) (qcut_bins exact_lerp col 4)"
proof -
  define vs where "vs = sort (dropna col)"
  define e where "e = (\<lambda>k :: nat. quantile exact_lerp vs (of_nat k / 4))"
  have col: "col = map Some (dropna col)"
    using nn by (rule no_null_column)
  have dxs: "distinct (dropna col)"
    using dist by (subst (asm) col) (simp add: distinct_map)
  have len: "length vs = length col"
    by (subst col) (simp add: vs_def)
  have s: "sorted_wrt (<) vs"
    by (simp add: strict_sorted_iff vs_def dxs)
  have ne: "vs \<noteq> []" and n2: "2 \<le> length vs"
    using n len by auto
  have bins: "qcut_bins exact_lerp col 4 = [e 0, e 1, e 2, e 3, e 4]"
    unfolding qcut_bins_4 list.map e_def vs_def by (rule refl)
  have inc: "e 0 < e 1" "e 1 < e 2" "e 2 < e 3" "e 3 < e 4"
    using edges_increase [OF s n2, of 0] edges_increase [OF s n2, of 1]
      edges_increase [OF s n2, of 2] edges_increase [OF s n2, of 3]
    by (simp_all add: e_def numeral_2_eq_2 numeral_3_eq_3 eval_nat_numeral)
  have sorted: "sorted_wrt (<) [e 0, e 1, e 2, e 3, e 4]"
    using inc by auto
  have e0: "e 0 = vs ! 0"
    using quantile_formula [of 0 vs] by (simp add: e_def)
  have br: "vs ! ((length vs - 1) * k div 4) \<le> e k \<and>
            (Suc ((length vs - 1) * k div 4) < length vs \<longrightarrow>
               e k < vs ! Suc ((length vs - 1) * k div 4))" if "k \<le> 4" for k
    unfolding e_def using quantile_bracket(2,3) [OF s ne that] by blast
  have nth: "[e 0, e 1, e 2, e 3, e 4] ! 0 = e 0" "[e 0, e 1, e 2, e 3, e 4] ! 1 = e 1"
    "[e 0, e 1, e 2, e 3, e 4] ! 2 = e 2" "[e 0, e 1, e 2, e 3, e 4] ! 3 = e 3"
    "[e 0, e 1, e 2, e 3, e 4] ! 4 = e 4"
    by simp_all
  show ?thesis
    unfolding quartile_edges_in_place_def bins vs_def [symmetric] list_all_upt_5 nth
    using sorted e0 br [of 0] br [of 1] br [of 2] br [of 3] br [of 4] by simp
qed




text \<open>
  The rounding of the floats can put edges out of place: of the two amounts \<open>2 ^ 53\<close>
  and \<open>2 ^ 53 + 2\<close> the interpolated edges are rounded onto the amounts themselves, and
  the derivation raises ValueError for the repeated edges.
\<close>

lemma purchase_category_rounded_edges:
  "qcut_bins lerp_even_grid [Some (2 ^ 53), Some (2 ^ 53 + 2)] 4 =
     [2 ^ 53, 2 ^ 53, 2 ^ 53, 2 ^ 53 + 2, 2 ^ 53 + 2] \<and>
   pd_qcut lerp_even_grid [Some (2 ^ 53), Some (2 ^ 53 + 2)] 4 purchase_labels = Inl ValueError \<and>
   \<not> quartile_edges_in_place (sort (dropna [Some (2 ^ 53), Some (2 ^ 53 + 2)]))
       (qcut_bins lerp_even_grid [Some (2 ^ 53), Some (2 ^ 53 + 2)] 4)"
  by code_simp


section \<open>Properties of the classifier notebook\<close>

subsection \<open>The arg-max\<close>






subsection \<open>Rows and batches\<close>














subsection \<open>Evaluation\<close>




subsection \<open>The network of zeros\<close>







text \<open>
  Claim C9: the loader of an empty test set yields no batch; the total stays 0 and the
  accuracy computation raises ZeroDivisionError.
\<close>

theorem evaluate_model_empty_loader:
  "DataLoader [] 64 = Inr [] \<and> evaluate_model eval call model [] = Inl ZeroDivisionError"
  by (simp add: DataLoader_def evaluate_model_def chunks.simps)

end
